theory Spec2Isabelle
  imports Main
begin

section \<open>Python values of the notebook\<close>

text \<open>
  The notebook \<^verbatim>\<open>verde-examples/walkthrough.ipynb\<close> works on what
  \<^verbatim>\<open>result.json()\<close> returns: \<^verbatim>\<open>None\<close>, booleans, integers, floats, strings, lists
  and dictionaries with string keys. A dictionary is the list of its items in insertion
  order (its keys are distinct; a lookup takes the first item of a key). A float is
  identified by the text \<^verbatim>\<open>repr\<close> gives it, which determines the float. A character is a
  code point below 256.
\<close>

datatype jval =
    JNull
  | JBool bool
  | JInt int
  | JFloat string
  | JString string
  | JArray "jval list"
  | JObject "(string \<times> jval) list"

text \<open>The exceptions the notebook's code can raise; \<^verbatim>\<open>KeyError\<close> carries the key.\<close>

datatype py_error =
    Exception string
  | KeyError jval
  | IndexError
  | TypeError
  | AttributeError
  | ValueError
  | EOFError

text \<open>
  A \<^verbatim>\<open>requests.Response\<close> as far as the notebook reads it: the status code, the raw body
  text, and what \<^verbatim>\<open>json()\<close> returns for that body (\<open>None\<close> when the body is not JSON and
  \<^verbatim>\<open>json()\<close> raises \<^verbatim>\<open>ValueError\<close>).
\<close>

record response =
  status_code :: int
  "text" :: string
  json :: "jval option"

subsection \<open>Builtins used by the notebook\<close>

text \<open>\<^verbatim>\<open>str(n)\<close> for an integer: decimal digits, with a minus sign below zero.\<close>

fun str_nat :: "nat \<Rightarrow> string" where
  "str_nat n =
     (if n < 10 then [''0123456789'' ! n]
      else str_nat (n div 10) @ [''0123456789'' ! (n mod 10)])"

declare str_nat.simps [simp del]

definition str_int :: "int \<Rightarrow> string" where
  "str_int i = (if i < 0 then CHR ''-'' # str_nat (nat (- i)) else str_nat (nat i))"

text \<open>\<^verbatim>\<open>sep.join(parts)\<close> on a list of strings.\<close>

fun join :: "string \<Rightarrow> string list \<Rightarrow> string" where
  "join sep [] = []"
| "join sep [s] = s"
| "join sep (s # t # ss) = s @ sep @ join sep (t # ss)"

text \<open>
  \<^verbatim>\<open>repr\<close> of a string: single quotes, unless the string has a single quote and no double
  quote; the quote and the backslash are escaped, tab, newline and carriage return are
  written \<^verbatim>\<open>\t\<close>, \<^verbatim>\<open>\n\<close>, \<^verbatim>\<open>\r\<close>, any other non-printable character as \<^verbatim>\<open>\xhh\<close>.
\<close>

definition hex2 :: "nat \<Rightarrow> string" where
  "hex2 n = [''0123456789abcdef'' ! (n div 16), ''0123456789abcdef'' ! (n mod 16)]"

definition printable :: "char \<Rightarrow> bool" where
  "printable c =
     (let n = (of_char c :: nat)
      in \<not> (n < 0x20 \<or> n = 0x7F \<or> (0x80 \<le> n \<and> n \<le> 0xA0) \<or> n = 0xAD))"

definition repr_char :: "char \<Rightarrow> char \<Rightarrow> string" where
  "repr_char q c =
     (if c = q \<or> c = CHR 0x5C then [CHR 0x5C, c]
      else if c = CHR 0x09 then [CHR 0x5C, CHR ''t'']
      else if c = CHR 0x0A then [CHR 0x5C, CHR ''n'']
      else if c = CHR 0x0D then [CHR 0x5C, CHR ''r'']
      else if printable c then [c]
      else [CHR 0x5C, CHR ''x''] @ hex2 (of_char c))"

definition repr_str :: "string \<Rightarrow> string" where
  "repr_str s =
     (let q = (if CHR 0x27 \<in> set s \<and> CHR 0x22 \<notin> set s then CHR 0x22 else CHR 0x27)
      in [q] @ concat (map (repr_char q) s) @ [q])"

text \<open>\<^verbatim>\<open>repr(v)\<close>, and \<^verbatim>\<open>str(v)\<close>, which an f-string applies to each field.\<close>

primrec py_repr :: "jval \<Rightarrow> string" where
  "py_repr JNull = ''None''"
| "py_repr (JBool b) = (if b then ''True'' else ''False'')"
| "py_repr (JInt i) = str_int i"
| "py_repr (JFloat s) = s"
| "py_repr (JString s) = repr_str s"
| "py_repr (JArray xs) = ''['' @ join '', '' (map py_repr xs) @ '']''"
| "py_repr (JObject kvs) =
     ''{'' @ join '', '' (map (\<lambda>kv. repr_str (fst kv) @ '': '' @ snd kv)
                             (map (map_prod id py_repr) kvs)) @ ''}''"

definition py_str :: "jval \<Rightarrow> string" where
  "py_str v = (case v of JString s \<Rightarrow> s | _ \<Rightarrow> py_repr v)"

text \<open>Truth value of an object, as \<^verbatim>\<open>if errors:\<close> takes it.\<close>

fun py_bool :: "jval \<Rightarrow> bool" where
  "py_bool JNull = False"
| "py_bool (JBool b) = b"
| "py_bool (JInt i) = (i \<noteq> 0)"
| "py_bool (JFloat s) = (s \<noteq> ''0.0'' \<and> s \<noteq> ''-0.0'')"
| "py_bool (JString s) = (s \<noteq> [])"
| "py_bool (JArray xs) = (xs \<noteq> [])"
| "py_bool (JObject kvs) = (kvs \<noteq> [])"

text \<open>
  Iteration (\<^verbatim>\<open>for x in v\<close>): a list gives its elements, a string its characters, a
  dictionary its keys; anything else is not iterable.
\<close>

fun py_iter :: "jval \<Rightarrow> py_error + jval list" where
  "py_iter (JArray xs) = Inr xs"
| "py_iter (JString s) = Inr (map (\<lambda>c. JString [c]) s)"
| "py_iter (JObject kvs) = Inr (map (\<lambda>kv. JString (fst kv)) kvs)"
| "py_iter _ = Inl TypeError"

fun py_len :: "jval \<Rightarrow> py_error + nat" where
  "py_len (JArray xs) = Inr (length xs)"
| "py_len (JString s) = Inr (length s)"
| "py_len (JObject kvs) = Inr (length kvs)"
| "py_len _ = Inl TypeError"

text \<open>\<^verbatim>\<open>d.get(k, default)\<close>: only a dictionary has the method.\<close>

fun dict_get :: "jval \<Rightarrow> string \<Rightarrow> jval \<Rightarrow> py_error + jval" where
  "dict_get (JObject kvs) k d = Inr (case map_of kvs k of Some v \<Rightarrow> v | None \<Rightarrow> d)"
| "dict_get _ k d = Inl AttributeError"

text \<open>
  Subscription \<^verbatim>\<open>v[k]\<close> by a string or by an integer. An index below zero counts from the
  end. A dictionary read from JSON has string keys only, so an integer is a missing key.
\<close>

datatype key = K string | I int

definition py_index :: "'a list \<Rightarrow> int \<Rightarrow> 'a option" where
  "py_index xs i =
     (if 0 \<le> i \<and> i < int (length xs) then Some (xs ! nat i)
      else if i < 0 \<and> - int (length xs) \<le> i then Some (xs ! nat (int (length xs) + i))
      else None)"

fun getitem :: "jval \<Rightarrow> key \<Rightarrow> py_error + jval" where
  "getitem (JObject kvs) (K k) =
     (case map_of kvs k of Some v \<Rightarrow> Inr v | None \<Rightarrow> Inl (KeyError (JString k)))"
| "getitem (JObject kvs) (I i) = Inl (KeyError (JInt i))"
| "getitem (JArray xs) (I i) =
     (case py_index xs i of Some v \<Rightarrow> Inr v | None \<Rightarrow> Inl IndexError)"
| "getitem (JString s) (I i) =
     (case py_index s i of Some c \<Rightarrow> Inr (JString [c]) | None \<Rightarrow> Inl IndexError)"
| "getitem _ _ = Inl TypeError"

text \<open>A chain of subscriptions \<^verbatim>\<open>v[k1][k2]...\<close>, left to right; the first failure ends it.\<close>

fun subscripts :: "jval \<Rightarrow> key list \<Rightarrow> py_error + jval" where
  "subscripts v [] = Inr v"
| "subscripts v (k # ks) =
     (case getitem v k of Inl e \<Rightarrow> Inl e | Inr w \<Rightarrow> subscripts w ks)"

text \<open>\<^verbatim>\<open>sep.join(v)\<close> on an object: it must be iterable and every item a string.\<close>

fun strings_of :: "jval list \<Rightarrow> py_error + string list" where
  "strings_of [] = Inr []"
| "strings_of (JString s # vs) =
     (case strings_of vs of Inl e \<Rightarrow> Inl e | Inr ss \<Rightarrow> Inr (s # ss))"
| "strings_of (_ # vs) = Inl TypeError"

definition str_join :: "string \<Rightarrow> jval \<Rightarrow> py_error + string" where
  "str_join sep v =
     (case py_iter v of Inl e \<Rightarrow> Inl e
      | Inr items \<Rightarrow>
          (case strings_of items of Inl e \<Rightarrow> Inl e | Inr ss \<Rightarrow> Inr (join sep ss)))"

section \<open>The error-reporting helper\<close>

text \<open>
  \<^verbatim>\<open>f"line {loc['line']}, col {loc['column']}"\<close> for one location, and the list
  comprehension over \<^verbatim>\<open>err['locations']\<close>.
\<close>

definition location_text :: "jval \<Rightarrow> py_error + string" where
  "location_text loc =
     (case getitem loc (K ''line'') of Inl e \<Rightarrow> Inl e
      | Inr l \<Rightarrow>
          (case getitem loc (K ''column'') of Inl e \<Rightarrow> Inl e
           | Inr c \<Rightarrow> Inr (''line '' @ py_str l @ '', col '' @ py_str c)))"

fun location_texts :: "jval list \<Rightarrow> py_error + string list" where
  "location_texts [] = Inr []"
| "location_texts (loc # locs) =
     (case location_text loc of Inl e \<Rightarrow> Inl e
      | Inr s \<Rightarrow>
          (case location_texts locs of Inl e \<Rightarrow> Inl e | Inr ss \<Rightarrow> Inr (s # ss)))"

text \<open>
  The body of the loop of \<^verbatim>\<open>check_results\<close>: four \<^verbatim>\<open>print\<close> calls for one entry. The
  result is the text written to standard output and how the body ended; an exception
  raised while an argument is evaluated leaves the earlier lines written.
\<close>

definition print_error :: "jval \<Rightarrow> string \<times> (py_error + unit)" where
  "print_error err =
     (case getitem err (K ''message'') of Inl e \<Rightarrow> ([], Inl e)
      | Inr m \<Rightarrow>
     (let out1 = py_str m @ '':\<newline>'' in
      case getitem err (K ''locations'') of Inl e \<Rightarrow> (out1, Inl e)
      | Inr locs \<Rightarrow>
     (case py_iter locs of Inl e \<Rightarrow> (out1, Inl e)
      | Inr items \<Rightarrow>
     (case location_texts items of Inl e \<Rightarrow> (out1, Inl e)
      | Inr ls \<Rightarrow>
     (let out2 = out1 @ ''  at '' @ join '' and '' ls @ ''\<newline>'' in
      case getitem err (K ''path'') of Inl e \<Rightarrow> (out2, Inl e)
      | Inr p \<Rightarrow>
     (case str_join ''.'' p of Inl e \<Rightarrow> (out2, Inl e)
      | Inr ps \<Rightarrow>
     (let out3 = out2 @ ''  path '' @ ps @ ''\<newline>'' in
      case getitem err (K ''extensions'') of Inl e \<Rightarrow> (out3, Inl e)
      | Inr x \<Rightarrow> (out3 @ ''  '' @ py_str x @ ''\<newline>'', Inr ()))))))))"

fun print_errors :: "jval list \<Rightarrow> string \<times> (py_error + unit)" where
  "print_errors [] = ([], Inr ())"
| "print_errors (err # errs) =
     (case print_error err of
        (out, Inl e) \<Rightarrow> (out, Inl e)
      | (out, Inr _) \<Rightarrow> (case print_errors errs of (out', r) \<Rightarrow> (out @ out', r)))"

text \<open>
  \<^verbatim>\<open>check_results(result)\<close>: the text it prints and its outcome, \<open>Inr ()\<close> when it
  returns.
\<close>

definition check_results :: "response \<Rightarrow> string \<times> (py_error + unit)" where
  "check_results result =
     (if status_code result \<noteq> 200 then
        ([], Inl (Exception (''Request failed with code '' @ str_int (status_code result)
                              @ ''.\<newline>'' @ text result)))
      else
        case json result of None \<Rightarrow> ([], Inl ValueError)
        | Some body \<Rightarrow>
       (case dict_get body ''errors'' (JArray []) of Inl e \<Rightarrow> ([], Inl e)
        | Inr errors \<Rightarrow>
            if py_bool errors then
              (case py_iter errors of Inl e \<Rightarrow> ([], Inl e)
               | Inr errs \<Rightarrow>
              (case print_errors errs of
                 (out, Inl e) \<Rightarrow> (out, Inl e)
               | (out, Inr _) \<Rightarrow>
                  (case py_len errors of Inl e \<Rightarrow> (out, Inl e)
                   | Inr n \<Rightarrow>
                       (out, Inl (Exception (''GraphQL reported '' @ str_int (int n)
                                              @ '' errors''))))))
            else ([], Inr ())))"

text \<open>
  What each query cell does with the response of its \<^verbatim>\<open>requests.post\<close>:
  \<^verbatim>\<open>check_results(result)\<close>, then \<^verbatim>\<open>data = result.json()["data"]\<close>.
\<close>

definition execute :: "response \<Rightarrow> string \<times> (py_error + jval)" where
  "execute result =
     (case check_results result of
        (out, Inl e) \<Rightarrow> (out, Inl e)
      | (out, Inr _) \<Rightarrow>
          (case json result of None \<Rightarrow> (out, Inl ValueError)
           | Some body \<Rightarrow> (out, getitem body (K ''data''))))"

section \<open>Reading the response data\<close>

text \<open>
  \<^verbatim>\<open>cost = data['account']['premiumData']['cropObservationRegistrationsCost'][0]['cost']\<close>
\<close>

definition cost :: "jval \<Rightarrow> py_error + jval" where
  "cost data =
     subscripts data
       [K ''account'', K ''premiumData'', K ''cropObservationRegistrationsCost'', I 0,
        K ''cost'']"

definition scenario_A :: jval where
  "scenario_A =
     JObject [(''account'',
       JObject [(''premiumData'',
         JObject [(''cropObservationRegistrationsCost'',
           JArray [JObject [(''cost'', JInt 0)]])])])]"


definition registrationID :: "jval \<Rightarrow> py_error + jval" where
  "registrationID data =
     subscripts data
       [K ''account'', K ''premiumData'', K ''addCropObservationRegistrations'', I 0,
        K ''id'']"

section \<open>Credentials, headers and the three requests\<close>

text \<open>
  Whitespace as \<^verbatim>\<open>str.strip()\<close> takes it, for code points below 256, and \<^verbatim>\<open>strip\<close>
  itself.
\<close>

definition is_space :: "char \<Rightarrow> bool" where
  "is_space c =
     (let n = (of_char c :: nat)
      in (0x09 \<le> n \<and> n \<le> 0x0D) \<or> (0x1C \<le> n \<and> n \<le> 0x20) \<or> n = 0x85 \<or> n = 0xA0)"

definition strip :: "string \<Rightarrow> string" where
  "strip s = rev (dropWhile is_space (rev (dropWhile is_space s)))"

text \<open>
  \<^verbatim>\<open>input(prompt)\<close> on a console: the lines still to be read come in, the prompt written
  and the lines left come out, with the line read or \<^verbatim>\<open>EOFError\<close>.
\<close>

definition input ::
  "string \<Rightarrow> string list \<Rightarrow> (string \<times> string list) \<times> (py_error + string)" where
  "input prompt lines =
     (case lines of
        [] \<Rightarrow> ((prompt, []), Inl EOFError)
      | l # rest \<Rightarrow> ((prompt, rest), Inr l))"

text \<open>
  The cell that sets \<^verbatim>\<open>API_KEY\<close>, from the process environment and the console:
  \<^verbatim>\<open>if "API_KEY" in os.environ: API_KEY = os.environ["API_KEY"]\<close>,
  \<^verbatim>\<open>else: API_KEY = input("Query API Subscription Key: ").strip()\<close>.
\<close>

definition GRAPHQL_ENDPOINT :: string where
  "GRAPHQL_ENDPOINT = ''https://api.agrimetrics.co.uk/graphql/v1/''"

definition API_KEY ::
  "(string \<rightharpoonup> string) \<Rightarrow> string list \<Rightarrow> (string \<times> string list) \<times> (py_error + string)"
  where
  "API_KEY environ lines =
     (if ''API_KEY'' \<in> dom environ then
        (case environ ''API_KEY'' of
           Some v \<Rightarrow> (([], lines), Inr v)
         | None \<Rightarrow> (([], lines), Inl (KeyError (JString ''API_KEY''))))
      else
        (case input ''Query API Subscription Key: '' lines of
           (io, Inl e) \<Rightarrow> (io, Inl e)
         | (io, Inr l) \<Rightarrow> (io, Inr (strip l))))"

definition common_headers :: "string \<Rightarrow> (string \<times> string) list" where
  "common_headers api_key =
     [(''OCP-APIM-Subscription-Key'', api_key),
      (''Accept'', ''application/json''),
      (''Content-Type'', ''application/json'')]"

definition cost_variables :: jval where
  "cost_variables =
     JObject
       [(''fieldId'', JString ''https://data.agrimetrics.co.uk/fields/-Dzkwq1lmP0VkSfEcpSqsQ''),
        (''season'', JString ''SEP2019TOSEP2020''),
        (''layerType'', JString ''CROP_SPECIFIC''),
        (''cropType'', JString ''GRASS'')]"

definition cost_query :: string where
  "cost_query = concat
     [''\<newline>'',
      ''    query RegistrationCostQuery(\<newline>'',
      ''        $fieldId: ID!,\<newline>'',
      ''        $layerType: LayerType!,\<newline>'',
      ''        $season: CropSeason!,\<newline>'',
      ''        $cropType: ObservationCropType\<newline>'',
      ''        ) \<newline>'',
      ''    {\<newline>'',
      ''      account {\<newline>'',
      ''        premiumData {\<newline>'',
      ''          cropObservationRegistrationsCost(registrations: {\<newline>'',
      ''            fieldId: $fieldId, \<newline>'',
      ''            layerType: $layerType , \<newline>'',
      ''            season: $season, \<newline>'',
      ''            cropType: $cropType}) {\<newline>'',
      ''            cost\<newline>'',
      ''          }\<newline>'',
      ''        }\<newline>'',
      ''      }\<newline>'',
      ''    }\<newline>'']"

definition registration_query :: string where
  "registration_query = concat
     [''\<newline>'',
      ''    mutation RegistrationQuery($fieldId: ID!,\<newline>'',
      ''        $layerType: LayerType!,\<newline>'',
      ''        $season: CropSeason!,\<newline>'',
      ''        $cropType: ObservationCropType) {\<newline>'',
      ''      account {\<newline>'',
      ''        premiumData {\<newline>'',
      ''          addCropObservationRegistrations(registrations: {\<newline>'',
      ''            fieldId: $fieldId, \<newline>'',
      ''            layerType: $layerType, \<newline>'',
      ''            season: $season, \<newline>'',
      ''            cropType: $cropType}) {\<newline>'',
      ''            cost\<newline>'',
      ''            id\<newline>'',
      ''          }\<newline>'',
      ''        }\<newline>'',
      ''      }\<newline>'',
      ''    }\<newline>'']"

definition verde_data_query :: string where
  "verde_data_query = concat
     [''\<newline>'',
      ''query getFieldIdAtLocation($fieldId: [ID!]!) {\<newline>'',
      ''  fields(where: {id: {EQ: $fieldId}}) {\<newline>'',
      ''    cropObservations {\<newline>'',
      ''      brownVegetationCoverFraction {\<newline>'',
      ''        unit\<newline>'',
      ''        median\<newline>'',
      ''        mean\<newline>'',
      ''      }\<newline>'',
      ''    }\<newline>'',
      ''  }\<newline>'',
      ''}\<newline>'',
      ''\<newline>'']"

definition cost_query_object :: jval where
  "cost_query_object =
     JObject
       [(''query'', JString cost_query),
        (''variables'', cost_variables),
        (''operationName'', JString ''RegistrationCostQuery'')]"

definition registration_query_object :: jval where
  "registration_query_object =
     JObject
       [(''query'', JString registration_query),
        (''variables'', cost_variables),
        (''operationName'', JString ''RegistrationQuery'')]"

definition data_query_object :: jval where
  "data_query_object =
     JObject
       [(''query'', JString verde_data_query),
        (''variables'', cost_variables),
        (''operationName'', JString ''getFieldIdAtLocation'')]"

text \<open>
  The arguments of a \<^verbatim>\<open>requests.post(url, headers=..., json=...)\<close> call, and the three
  calls of the notebook, each with the key that \<^verbatim>\<open>API_KEY\<close> holds.
\<close>

record request =
  url :: string
  headers :: "(string \<times> string) list"
  payload :: jval

definition post :: "string \<Rightarrow> (string \<times> string) list \<Rightarrow> jval \<Rightarrow> request" where
  "post u hs j = \<lparr>url = u, headers = hs, payload = j\<rparr>"

definition cost_post :: "string \<Rightarrow> request" where
  "cost_post api_key = post GRAPHQL_ENDPOINT (common_headers api_key) cost_query_object"

definition registration_post :: "string \<Rightarrow> request" where
  "registration_post api_key =
     post GRAPHQL_ENDPOINT (common_headers api_key) registration_query_object"

definition data_post :: "string \<Rightarrow> request" where
  "data_post api_key = post GRAPHQL_ENDPOINT (common_headers api_key) data_query_object"

section \<open>The table of measurements\<close>

text \<open>
  Modelled from the spec: \<^verbatim>\<open>pandas.DataFrame\<close>, the library constructor that the last cell
  applies to the list of measurements; its code is not part of the repository. Following
  the specification, an array of objects is flattened into a table where each array
  element becomes a row and each object key becomes a column: the columns are the keys in
  the order in which they first appear, and a row holds, for each column, the value its
  object has under that key, if any. No other input is described, and the model gives
  \<open>None\<close> for it.
\<close>

record dataframe =
  columns :: "string list"
  rows :: "jval option list list"

fun records_of :: "jval list \<Rightarrow> (string \<times> jval) list list option" where
  "records_of [] = Some []"
| "records_of (JObject kvs # vs) =
     (case records_of vs of None \<Rightarrow> None | Some rs \<Rightarrow> Some (kvs # rs))"
| "records_of (_ # vs) = None"

definition add_columns :: "string list \<Rightarrow> (string \<times> jval) list \<Rightarrow> string list" where
  "add_columns cols kvs = cols @ filter (\<lambda>k. k \<notin> set cols) (map fst kvs)"

definition DataFrame :: "jval \<Rightarrow> dataframe option" where
  "DataFrame v =
     (case v of
        JArray vs \<Rightarrow>
          (case records_of vs of
             None \<Rightarrow> None
           | Some rs \<Rightarrow>
               (let cols = foldl add_columns [] rs
                in Some \<lparr>columns = cols, rows = map (\<lambda>kvs. map (map_of kvs) cols) rs\<rparr>))
      | _ \<Rightarrow> None)"

text \<open>
  The last cell: \<^verbatim>\<open>first_field = data["fields"][0]\<close>, then
  \<^verbatim>\<open>first_field["cropObservations"]["brownVegetationCoverFraction"]\<close>, then the table.
\<close>

definition brown_vegetation_df :: "jval \<Rightarrow> py_error + dataframe option" where
  "brown_vegetation_df data =
     (case subscripts data [K ''fields'', I 0] of Inl e \<Rightarrow> Inl e
      | Inr first_field \<Rightarrow>
     (case subscripts first_field
             [K ''cropObservations'', K ''brownVegetationCoverFraction''] of
        Inl e \<Rightarrow> Inl e
      | Inr brown_vegetation \<Rightarrow> Inr (DataFrame brown_vegetation)))"

section \<open>Well-formed error entries\<close>

text \<open>
  An entry of the \<^verbatim>\<open>errors\<close> list as the helper expects it: an object with a message, a
  list of locations that each have a line and a column, a path that is a list of strings,
  and extensions. \<open>present_fields_ok\<close> asks this of the fields that are there;
  \<open>missing_key\<close> is the first of \<^verbatim>\<open>locations\<close>, \<^verbatim>\<open>path\<close>, \<^verbatim>\<open>extensions\<close> that is not.
\<close>

fun is_string :: "jval \<Rightarrow> bool" where
  "is_string (JString s) = True"
| "is_string _ = False"

fun string_of :: "jval \<Rightarrow> string" where
  "string_of (JString s) = s"
| "string_of _ = []"


definition well_formed_location :: "jval \<Rightarrow> bool" where
  "well_formed_location loc =
     (case loc of
        JObject kvs \<Rightarrow> map_of kvs ''line'' \<noteq> None \<and> map_of kvs ''column'' \<noteq> None
      | _ \<Rightarrow> False)"

definition present_fields_ok :: "(string \<times> jval) list \<Rightarrow> bool" where
  "present_fields_ok e =
     (map_of e ''message'' \<noteq> None
      \<and> (case map_of e ''locations'' of
            None \<Rightarrow> True
          | Some (JArray locs) \<Rightarrow> list_all well_formed_location locs
          | Some _ \<Rightarrow> False)
      \<and> (case map_of e ''path'' of
            None \<Rightarrow> True
          | Some (JArray ps) \<Rightarrow> list_all is_string ps
          | Some _ \<Rightarrow> False))"

definition missing_key :: "(string \<times> jval) list \<Rightarrow> string option" where
  "missing_key e =
     (if map_of e ''locations'' = None then Some ''locations''
      else if map_of e ''path'' = None then Some ''path''
      else if map_of e ''extensions'' = None then Some ''extensions''
      else None)"

definition well_formed_error :: "jval \<Rightarrow> bool" where
  "well_formed_error err =
     (case err of
        JObject e \<Rightarrow> present_fields_ok e \<and> missing_key e = None
      | _ \<Rightarrow> False)"

text \<open>The lines a well-formed entry is reported with.\<close>

definition render_location :: "jval \<Rightarrow> string" where
  "render_location loc =
     (case loc of
        JObject kvs \<Rightarrow>
          (case (map_of kvs ''line'', map_of kvs ''column'') of
             (Some l, Some c) \<Rightarrow> ''line '' @ py_str l @ '', col '' @ py_str c
           | _ \<Rightarrow> [])
      | _ \<Rightarrow> [])"

definition render_error :: "jval \<Rightarrow> string" where
  "render_error err =
     (case err of
        JObject e \<Rightarrow>
          (case (map_of e ''message'', map_of e ''locations'', map_of e ''path'',
                 map_of e ''extensions'') of
             (Some m, Some (JArray locs), Some (JArray ps), Some x) \<Rightarrow>
               py_str m @ '':\<newline>''
               @ ''  at '' @ join '' and '' (map render_location locs) @ ''\<newline>''
               @ ''  path '' @ join ''.'' (map string_of ps) @ ''\<newline>''
               @ ''  '' @ py_str x @ ''\<newline>''
           | _ \<Rightarrow> [])
      | _ \<Rightarrow> [])"

text \<open>Reading a decimal numeral back, to tell two status codes apart by their text.\<close>

definition digit_val :: "char \<Rightarrow> nat" where
  "digit_val c = of_char c - 48"

definition nat_of_digits :: "string \<Rightarrow> nat" where
  "nat_of_digits ds = foldl (\<lambda>a c. 10 * a + digit_val c) 0 ds"

section \<open>Example responses\<close>

text \<open>Status 403 with the body \<^verbatim>\<open>Forbidden\<close>, which is not JSON.\<close>

definition scenario_C :: response where
  "scenario_C = \<lparr>status_code = 403, text = ''Forbidden'', json = None\<rparr>"

text \<open>
  Status 200 with one error entry whose path is \<^verbatim>\<open>["fields", 0, "id"]\<close>, and the same
  response with the path \<^verbatim>\<open>["fields", "id"]\<close>.
\<close>

definition bad_field :: "jval list \<Rightarrow> jval" where
  "bad_field path =
     JObject
       [(''message'', JString ''bad field''),
        (''locations'', JArray [JObject [(''line'', JInt 3), (''column'', JInt 5)]]),
        (''path'', JArray path),
        (''extensions'', JObject [(''code'', JString ''INVALID'')])]"

definition scenario_B :: response where
  "scenario_B =
     \<lparr>status_code = 200,
      text = ''{\"errors\":[{\"message\":\"bad field\",\"locations\":[{\"line\":3,\"column\":5}],\"path\":[\"fields\",0,\"id\"],\"extensions\":{\"code\":\"INVALID\"}}]}'',
      json = Some (JObject [(''errors'',
               JArray [bad_field [JString ''fields'', JInt 0, JString ''id'']])])\<rparr>"

definition string_path_response :: response where
  "string_path_response =
     \<lparr>status_code = 200,
      text = ''{\"errors\":[{\"message\":\"bad field\",\"locations\":[{\"line\":3,\"column\":5}],\"path\":[\"fields\",\"id\"],\"extensions\":{\"code\":\"INVALID\"}}]}'',
      json = Some (JObject [(''errors'',
               JArray [bad_field [JString ''fields'', JString ''id'']])])\<rparr>"

text \<open>Status 200 with one error entry that has a message and nothing else.\<close>

definition message_only_response :: response where
  "message_only_response =
     \<lparr>status_code = 200,
      text = ''{\"errors\":[{\"message\":\"boom\"}]}'',
      json = Some (JObject [(''errors'', JArray [JObject [(''message'', JString ''boom'')]])])\<rparr>"







text \<open>Status 200 with the bodies \<^verbatim>\<open>{}\<close>, \<^verbatim>\<open>{"errors": []}\<close> and \<^verbatim>\<open>{"data": {"fields": []}}\<close>.\<close>

definition empty_body_response :: response where
  "empty_body_response = \<lparr>status_code = 200, text = ''{}'', json = Some (JObject [])\<rparr>"

definition errors_only_response :: response where
  "errors_only_response =
     \<lparr>status_code = 200, text = ''{\"errors\": []}'',
      json = Some (JObject [(''errors'', JArray [])])\<rparr>"

definition fields_response :: response where
  "fields_response =
     \<lparr>status_code = 200, text = ''{\"data\": {\"fields\": []}}'',
      json = Some (JObject [(''data'', JObject [(''fields'', JArray [])])])\<rparr>"

text \<open>Two measurements with the same keys.\<close>

definition scenario_D :: jval where
  "scenario_D =
     JArray
       [JObject [(''unit'', JString ''u1''), (''median'', JFloat ''0.1''),
                 (''mean'', JFloat ''0.2'')],
        JObject [(''unit'', JString ''u1''), (''median'', JFloat ''0.3''),
                 (''mean'', JFloat ''0.4'')]]"

section \<open>Properties\<close>

subsection \<open>Decimal numerals\<close>

lemma digit_val_nth: "n < 10 \<Longrightarrow> digit_val (''0123456789'' ! n) = n"
  by (auto simp: digit_val_def nth_Cons' split: if_splits)

lemma digit_nth_mem: "n < 10 \<Longrightarrow> ''0123456789'' ! n \<in> set ''0123456789''"
  by (rule nth_mem) simp

lemma nat_of_digits_str_nat: "nat_of_digits (str_nat n) = n"
proof (induction n rule: str_nat.induct)
  case (1 n)
  show ?case
  proof (cases "n < 10")
    case True
    then show ?thesis
      by (subst str_nat.simps) (simp add: nat_of_digits_def digit_val_nth)
  next
    case False
    with 1 have ih: "nat_of_digits (str_nat (n div 10)) = n div 10" by simp
    have "nat_of_digits (str_nat n) =
            10 * nat_of_digits (str_nat (n div 10)) + digit_val (''0123456789'' ! (n mod 10))"
      using False by (subst str_nat.simps) (simp add: nat_of_digits_def)
    also have "\<dots> = 10 * (n div 10) + n mod 10"
      by (simp add: ih digit_val_nth)
    finally show ?thesis by simp
  qed
qed

lemma str_nat_inj: "str_nat m = str_nat n \<Longrightarrow> m = n"
  by (metis nat_of_digits_str_nat)

lemma str_nat_digits: "set (str_nat n) \<subseteq> set ''0123456789''"
proof (induction n rule: str_nat.induct)
  case (1 n)
  show ?case
  proof (cases "n < 10")
    case True
    then show ?thesis
      using digit_nth_mem [of n] by (subst str_nat.simps) simp
  next
    case False
    with 1 have "set (str_nat (n div 10)) \<subseteq> set ''0123456789''" by simp
    moreover have "''0123456789'' ! (n mod 10) \<in> set ''0123456789''"
      by (rule digit_nth_mem) simp
    ultimately show ?thesis
      using False by (subst str_nat.simps) simp
  qed
qed

lemma str_nat_no_sign: "str_nat n \<noteq> CHR ''-'' # xs"
proof
  assume "str_nat n = CHR ''-'' # xs"
  then have "CHR ''-'' \<in> set (str_nat n)" by simp
  with str_nat_digits [of n] show False by auto
qed

lemma str_int_inj:
  assumes eq: "str_int i = str_int j"
  shows "i = j"
proof (cases "i < 0")
  case True
  show ?thesis
  proof (cases "j < 0")
    case True
    with \<open>i < 0\<close> eq have "str_nat (nat (- i)) = str_nat (nat (- j))"
      by (simp add: str_int_def)
    then have "nat (- i) = nat (- j)" by (rule str_nat_inj)
    with True \<open>i < 0\<close> show ?thesis by simp
  next
    case False
    with \<open>i < 0\<close> eq have "str_nat (nat j) = CHR ''-'' # str_nat (nat (- i))"
      by (simp add: str_int_def)
    then show ?thesis by (simp add: str_nat_no_sign)
  qed
next
  case False
  show ?thesis
  proof (cases "j < 0")
    case True
    with \<open>\<not> i < 0\<close> eq have "str_nat (nat i) = CHR ''-'' # str_nat (nat (- j))"
      by (simp add: str_int_def)
    then show ?thesis by (simp add: str_nat_no_sign)
  next
    case False
    with \<open>\<not> i < 0\<close> eq have "str_nat (nat i) = str_nat (nat j)"
      by (simp add: str_int_def)
    then have "nat i = nat j" by (rule str_nat_inj)
    with False \<open>\<not> i < 0\<close> show ?thesis by simp
  qed
qed

lemma str_int_no_dot: "CHR ''.'' \<notin> set (str_int i)"
  using str_nat_digits [of "nat i"] str_nat_digits [of "nat (- i)"]
  by (auto simp: str_int_def)

lemma split_at_mark:
  "d \<notin> set xs \<Longrightarrow> d \<notin> set xs' \<Longrightarrow> xs @ d # ys = xs' @ d # ys' \<Longrightarrow> xs = xs' \<and> ys = ys'"
proof (induction xs arbitrary: xs')
  case Nil
  then show ?case by (cases xs') auto
next
  case (Cons x xs)
  then show ?case by (cases xs') auto
qed

subsection \<open>Reporting well-formed entries\<close>

lemma location_text_wf:
  "well_formed_location loc \<Longrightarrow> location_text loc = Inr (render_location loc)"
  by (auto simp: well_formed_location_def location_text_def render_location_def
           split: jval.splits)

lemma location_texts_wf:
  "list_all well_formed_location locs \<Longrightarrow>
     location_texts locs = Inr (map render_location locs)"
  by (induction locs) (simp_all add: location_text_wf)

lemma strings_of_wf:
  "list_all is_string ps \<Longrightarrow> strings_of ps = Inr (map string_of ps)"
proof (induction ps)
  case Nil
  then show ?case by simp
next
  case (Cons p ps)
  then show ?case by (cases p) simp_all
qed

lemma print_error_wf:
  assumes "well_formed_error err"
  shows "print_error err = (render_error err, Inr ())"
proof -
  from assms obtain e where err: "err = JObject e"
    and ok: "present_fields_ok e" and none: "missing_key e = None"
    by (auto simp: well_formed_error_def split: jval.splits)
  from ok obtain m where m: "map_of e ''message'' = Some m"
    by (auto simp: present_fields_ok_def)
  from none obtain l p x where l: "map_of e ''locations'' = Some l"
    and p: "map_of e ''path'' = Some p" and x: "map_of e ''extensions'' = Some x"
    by (auto simp: missing_key_def split: if_splits)
  from ok l obtain locs where locs: "l = JArray locs" "list_all well_formed_location locs"
    by (auto simp: present_fields_ok_def split: jval.splits)
  from ok p obtain ps where ps: "p = JArray ps" "list_all is_string ps"
    by (auto simp: present_fields_ok_def split: jval.splits)
  show ?thesis
    by (simp add: print_error_def render_error_def err m l p x locs ps
          location_texts_wf strings_of_wf str_join_def)
qed

lemma print_errors_wf:
  "list_all well_formed_error errs \<Longrightarrow>
     print_errors errs = (concat (map render_error errs), Inr ())"
  by (induction errs) (simp_all add: print_error_wf)


subsection \<open>Entries that omit a key\<close>














subsection \<open>Tables of uniform objects\<close>

lemma records_of_objects: "records_of (map JObject objs) = Some objs"
  by (induction objs) simp_all

lemma add_columns_same: "add_columns (map fst kvs) kvs = map fst kvs"
  by (simp add: add_columns_def)

lemma foldl_add_columns_uniform:
  "\<forall>kvs \<in> set objs. map fst kvs = ks \<Longrightarrow> foldl add_columns ks objs = ks"
proof (induction objs)
  case Nil
  then show ?case by simp
next
  case (Cons kvs objs)
  then have "add_columns ks kvs = ks" using add_columns_same [of kvs] by simp
  with Cons show ?case by simp
qed

lemma map_of_own_keys:
  "distinct (map fst kvs) \<Longrightarrow>
     map (map_of kvs) (map fst kvs) = map (\<lambda>kv. Some (snd kv)) kvs"
proof (induction kvs)
  case Nil
  then show ?case by simp
next
  case (Cons kv kvs)
  then have "map (map_of (kv # kvs)) (map fst kvs) = map (map_of kvs) (map fst kvs)"
    by (intro map_cong) (auto simp: image_iff)
  with Cons show ?case by simp
qed

subsection \<open>The notebook against its specification\<close>

text \<open>
  C1, as stated, fails: a response with status 200 and no \<^verbatim>\<open>errors\<close> whose body has no
  \<^verbatim>\<open>data\<close> key makes the cell raise \<^verbatim>\<open>KeyError\<close>.
\<close>

theorem execute_empty_body_counterexample:
  "status_code empty_body_response = 200
   \<and> json empty_body_response = Some (JObject [])
   \<and> map_of ([] :: (string \<times> jval) list) ''errors'' = None
   \<and> execute empty_body_response = ([], Inl (KeyError (JString ''data'')))"
  by (simp add: empty_body_response_def execute_def check_results_def)

text \<open>
  C1, amended: for every response with status 200 whose JSON body is an object that has a
  \<^verbatim>\<open>data\<close> key and an empty or absent \<^verbatim>\<open>errors\<close> list, \<^verbatim>\<open>check_results\<close> followed by the
  lookup of \<^verbatim>\<open>data\<close> prints nothing, raises nothing and yields exactly the value under
  \<^verbatim>\<open>data\<close>.
\<close>

theorem execute_returns_data:
  assumes "status_code r = 200"
    and "json r = Some (JObject kvs)"
    and "map_of kvs ''errors'' = None \<or> map_of kvs ''errors'' = Some (JArray [])"
    and "map_of kvs ''data'' = Some d"
  shows "execute r = ([], Inr d)"
  using assms by (auto simp: execute_def check_results_def)

theorem execute_returns_data_witness:
  "execute fields_response = ([], Inr (JObject [(''fields'', JArray [])]))"
  using execute_returns_data
          [of fields_response "[(''data'', JObject [(''fields'', JArray [])])]"
              "JObject [(''fields'', JArray [])]"]
  by (simp add: fields_response_def)

text \<open>
  C2: for every response whose status is not 200, \<^verbatim>\<open>check_results\<close> prints nothing and
  raises an exception whose message is "Request failed with code", the status code in
  decimal, a full stop, a newline and the raw body text; the message determines both the
  status code and the body text.
\<close>

theorem check_results_transport_error:
  assumes "status_code r \<noteq> 200"
  shows "check_results r =
           ([], Inl (Exception (''Request failed with code '' @ str_int (status_code r)
                                 @ ''.\<newline>'' @ text r)))
         \<and> (\<forall>r'. status_code r' \<noteq> 200 \<and> check_results r' = check_results r
                \<longrightarrow> status_code r' = status_code r \<and> text r' = text r)"
proof (rule conjI)
  show "check_results r =
           ([], Inl (Exception (''Request failed with code '' @ str_int (status_code r)
                                 @ ''.\<newline>'' @ text r)))"
    using assms by (simp add: check_results_def)
next
  show "\<forall>r'. status_code r' \<noteq> 200 \<and> check_results r' = check_results r
              \<longrightarrow> status_code r' = status_code r \<and> text r' = text r"
  proof (intro allI impI)
    fix r'
    assume "status_code r' \<noteq> 200 \<and> check_results r' = check_results r"
    then have "status_code r' \<noteq> 200" and "check_results r' = check_results r"
      by simp_all
    then have "str_int (status_code r') @ CHR ''.'' # (CHR ''\<newline>'' # text r')
             = str_int (status_code r) @ CHR ''.'' # (CHR ''\<newline>'' # text r)"
      using assms by (simp add: check_results_def)
    from split_at_mark [OF str_int_no_dot str_int_no_dot this]
    show "status_code r' = status_code r \<and> text r' = text r"
      by (auto dest: str_int_inj)
  qed
qed

theorem check_results_transport_error_witness:
  "status_code scenario_C = 403 \<and> text scenario_C = ''Forbidden''
   \<and> check_results scenario_C =
       ([], Inl (Exception ''Request failed with code 403.\<newline>Forbidden''))"
proof -
  have "status_code scenario_C \<noteq> 200" by (simp add: scenario_C_def)
  from check_results_transport_error [OF this]
  have "check_results scenario_C =
          ([], Inl (Exception (''Request failed with code '' @ str_int (status_code scenario_C)
                                @ ''.\<newline>'' @ text scenario_C)))"
    by (rule conjunct1)
  then show ?thesis by (simp add: scenario_C_def str_int_def str_nat.simps)
qed

text \<open>
  C3, as stated, fails: a response with status 200 and one entry in \<^verbatim>\<open>errors\<close> that has
  only a message makes \<^verbatim>\<open>check_results\<close> raise \<^verbatim>\<open>KeyError\<close> for \<^verbatim>\<open>locations\<close>, after the
  message line, and no aggregate error.
\<close>

theorem check_results_message_only_counterexample:
  "status_code message_only_response = 200
   \<and> json message_only_response =
       Some (JObject [(''errors'', JArray [JObject [(''message'', JString ''boom'')]])])
   \<and> check_results message_only_response =
       (''boom:\<newline>'', Inl (KeyError (JString ''locations'')))"
  by (simp add: message_only_response_def check_results_def print_error_def py_str_def)

text \<open>
  C3, amended: for every response with status 200 whose JSON body is an object with a
  non-empty \<^verbatim>\<open>errors\<close> list in which every entry is well formed (a message, a list of
  locations with line and column, a path of strings, extensions), \<^verbatim>\<open>check_results\<close>
  prints the lines of every entry in order and raises the aggregate error whose message
  reports the number of entries.
\<close>

theorem check_results_graphql_errors:
  assumes "status_code r = 200"
    and "json r = Some (JObject kvs)"
    and "map_of kvs ''errors'' = Some (JArray errs)"
    and "errs \<noteq> []"
    and "list_all well_formed_error errs"
  shows "check_results r =
           (concat (map render_error errs),
            Inl (Exception (''GraphQL reported '' @ str_int (int (length errs))
                             @ '' errors'')))"
  using assms by (simp add: check_results_def print_errors_wf)

theorem check_results_graphql_errors_witness:
  "check_results string_path_response =
     (''bad field:\<newline>  at line 3, col 5\<newline>  path fields.id\<newline>  {'code': 'INVALID'}\<newline>'',
      Inl (Exception ''GraphQL reported 1 errors''))"
  using check_results_graphql_errors
          [of string_path_response
              "[(''errors'', JArray [bad_field [JString ''fields'', JString ''id'']])]"
              "[bad_field [JString ''fields'', JString ''id'']]"]
  by (simp add: string_path_response_def bad_field_def well_formed_error_def
        present_fields_ok_def missing_key_def well_formed_location_def render_error_def
        render_location_def py_str_def repr_str_def repr_char_def printable_def
        str_int_def str_nat.simps Let_def)

text \<open>
  C4: the code at the response of Scenario B, whose one entry has the locations
  [{line: 3, column: 5}] and the path ["fields", 0, "id"]. The message and the location
  line are printed; joining the path raises \<^verbatim>\<open>TypeError\<close> at the integer 0, so no path
  line and no extensions line is printed and no aggregate error is raised.
\<close>

theorem scenario_B_type_error:
  "check_results scenario_B =
     (''bad field:\<newline>  at line 3, col 5\<newline>'', Inl TypeError)"
  by (simp add: check_results_def scenario_B_def bad_field_def print_error_def
        location_text_def py_str_def str_int_def str_nat.simps str_join_def)

text \<open>
  C5: the three \<^verbatim>\<open>requests.post\<close> calls (cost query, registration mutation, data query)
  pass the same header set, and that set has exactly three headers: the subscription key
  under OCP-APIM-Subscription-Key, Accept with application/json and Content-Type with
  application/json.
\<close>

theorem same_headers:
  "headers (cost_post k) = common_headers k
   \<and> headers (registration_post k) = common_headers k
   \<and> headers (data_post k) = common_headers k
   \<and> map fst (common_headers k) = [''OCP-APIM-Subscription-Key'', ''Accept'', ''Content-Type'']
   \<and> map_of (common_headers k) ''OCP-APIM-Subscription-Key'' = Some k
   \<and> map_of (common_headers k) ''Accept'' = Some ''application/json''
   \<and> map_of (common_headers k) ''Content-Type'' = Some ''application/json''"
  by (simp add: cost_post_def registration_post_def data_post_def post_def
        common_headers_def)




text \<open>
  C7: the key is read from the environment under the name API_KEY. When the variable is
  set, its value is the key, verbatim, nothing is written and nothing is read from the
  console; when it is absent, the prompt is written, one line is read and the key is that
  line without the whitespace around it.
\<close>

theorem API_KEY_resolution:
  "(environ ''API_KEY'' = Some v \<longrightarrow> API_KEY environ lines = (([], lines), Inr v))
   \<and> (environ ''API_KEY'' = None \<longrightarrow>
        API_KEY environ (l # rest) =
          ((''Query API Subscription Key: '', rest), Inr (strip l)))"
  by (auto simp: API_KEY_def input_def)

theorem API_KEY_resolution_witness:
  "API_KEY (Map.empty(''API_KEY'' \<mapsto> '' k '')) [''typed''] = (([], [''typed'']), Inr '' k '')
   \<and> API_KEY (Map.empty(''HOME'' \<mapsto> ''/root'')) [''  typed  '', ''more''] =
       ((''Query API Subscription Key: '', [''more'']), Inr ''typed'')"
  using API_KEY_resolution [of "Map.empty(''API_KEY'' \<mapsto> '' k '')" "'' k ''" "[''typed'']"]
    API_KEY_resolution
      [of "Map.empty(''HOME'' \<mapsto> ''/root'')" _ _ "''  typed  ''" "[''more'']"]
  by (simp add: strip_def is_space_def)

text \<open>
  C8: for data = {"account": {"premiumData": {"cropObservationRegistrationsCost":
  [{"cost": 0}]}}}, the subscriptions account, premiumData,
  cropObservationRegistrationsCost, 0, cost of the cost cell yield the integer 0.
\<close>

theorem cost_scenario_A: "cost scenario_A = Inr (JInt 0)"
  by (simp add: cost_def scenario_A_def py_index_def)

text \<open>
  C9: flattening a non-empty array of objects that all have the same keys, in the same
  order, gives a table with one row for each element, in the order of the array, and one
  column for each key, in the order of the keys; each row holds the values of its
  element.
\<close>

theorem DataFrame_uniform:
  assumes "objs \<noteq> []" and "\<forall>kvs \<in> set objs. map fst kvs = ks" and "distinct ks"
  shows "DataFrame (JArray (map JObject objs)) =
           Some \<lparr>columns = ks, rows = map (map (\<lambda>kv. Some (snd kv))) objs\<rparr>"
proof -
  from assms(1) obtain kvs rest where objs: "objs = kvs # rest" by (cases objs) auto
  with assms(2) have "add_columns [] kvs = ks" by (simp add: add_columns_def)
  moreover from objs assms(2) have "\<forall>kv \<in> set rest. map fst kv = ks" by simp
  ultimately have cols: "foldl add_columns [] objs = ks"
    using objs by (simp add: foldl_add_columns_uniform)
  have "map (\<lambda>kvs. map (map_of kvs) ks) objs = map (map (\<lambda>kv. Some (snd kv))) objs"
  proof (rule map_cong [OF refl])
    fix kvs assume "kvs \<in> set objs"
    with assms(2,3) have "map fst kvs = ks" "distinct (map fst kvs)" by auto
    then show "map (map_of kvs) ks = map (\<lambda>kv. Some (snd kv)) kvs"
      using map_of_own_keys [of kvs] by simp
  qed
  with cols show ?thesis by (simp add: DataFrame_def records_of_objects)
qed

theorem DataFrame_uniform_witness:
  "DataFrame scenario_D =
     Some \<lparr>columns = [''unit'', ''median'', ''mean''],
           rows = [[Some (JString ''u1''), Some (JFloat ''0.1''), Some (JFloat ''0.2'')],
                   [Some (JString ''u1''), Some (JFloat ''0.3''), Some (JFloat ''0.4'')]]\<rparr>"
  using DataFrame_uniform
          [of "[[(''unit'', JString ''u1''), (''median'', JFloat ''0.1''),
                 (''mean'', JFloat ''0.2'')],
                [(''unit'', JString ''u1''), (''median'', JFloat ''0.3''),
                 (''mean'', JFloat ''0.4'')]]"
              "[''unit'', ''median'', ''mean'']"]
  by (simp add: scenario_D_def)

text \<open>
  C10: for every response with status 200 whose JSON body is an object with an empty or
  absent \<^verbatim>\<open>errors\<close> list and no \<^verbatim>\<open>data\<close> key, \<^verbatim>\<open>check_results\<close> prints nothing and
  returns, and the lookup of \<^verbatim>\<open>data\<close> that follows raises \<^verbatim>\<open>KeyError\<close> for \<^verbatim>\<open>data\<close>.
\<close>

theorem execute_data_absent:
  assumes "status_code r = 200"
    and "json r = Some (JObject kvs)"
    and "map_of kvs ''errors'' = None \<or> map_of kvs ''errors'' = Some (JArray [])"
    and "map_of kvs ''data'' = None"
  shows "check_results r = ([], Inr ())
         \<and> execute r = ([], Inl (KeyError (JString ''data'')))"
  using assms by (auto simp: execute_def check_results_def)

theorem execute_data_absent_witness:
  "check_results errors_only_response = ([], Inr ())
   \<and> execute errors_only_response = ([], Inl (KeyError (JString ''data'')))"
  using execute_data_absent [of errors_only_response "[(''errors'', JArray [])]"]
  by (simp add: errors_only_response_def)

end
